theory Spec2Isabelle
  imports Main "HOL-Library.Word"
begin

section \<open>Transforming OpenTelemetry records into New Relic metrics\<close>

text \<open>
  A shallow embedding of \<^verbatim>\<open>newrelic/internal/transform/metric.go\<close>: the functions
  \<^verbatim>\<open>Record\<close>, \<^verbatim>\<open>sum\<close>, \<^verbatim>\<open>minMaxSumCountValues\<close>, \<^verbatim>\<open>minMaxSumCount\<close> and
  \<^verbatim>\<open>attributes\<close>. The types of the OpenTelemetry and telemetry SDK packages that the
  file imports are modelled by the data they carry.
\<close>

subsection \<open>Attribute values, label sets and resources\<close>

text \<open>
  The attribute mapping has type \<^verbatim>\<open>map[string]interface{}\<close>. A value stored in it is
  either what \<^verbatim>\<open>label.Value.AsInterface()\<close> returns for a label or resource entry (a
  bool, an integer, a float carried by its bit pattern, or a string) or a Go string the
  builder stores itself.
\<close>

datatype go_value =
    BoolV bool
  | Int32V "32 word"
  | Int64V "64 word"
  | Uint32V "32 word"
  | Uint64V "64 word"
  | Float32V "32 word"
  | Float64V "64 word"
  | StringV string

text \<open>
  A \<^verbatim>\<open>label.KeyValue\<close> is a key with the value that \<^verbatim>\<open>AsInterface\<close> yields for it. A
  \<^verbatim>\<open>*label.Set\<close> and a \<^verbatim>\<open>*resource.Resource\<close> are read only through \<^verbatim>\<open>Len()\<close> and
  the iterator \<^verbatim>\<open>Iter()\<close>: they are the list of their entries in iteration order. Both
  methods accept a nil receiver and treat it as the empty set, which is the empty list
  here.
\<close>

type_synonym KeyValue = "string \<times> go_value"
type_synonym label_set = "KeyValue list"
type_synonym resource = "KeyValue list"
type_synonym attrs = "string \<rightharpoonup> go_value"

subsection \<open>Numbers and their coercion to float64\<close>

text \<open>
  A \<^verbatim>\<open>metric.Number\<close> is 64 raw bits that hold an int64 or the bit pattern of a
  float64; a \<^verbatim>\<open>float64\<close> is represented by its IEEE 754 binary64 bit pattern.
\<close>

type_synonym Number = "64 word"
type_synonym float64 = "64 word"

datatype NumberKind = Int64NumberKind | Float64NumberKind

text \<open>Position of the most significant set bit of a positive number.\<close>

fun top_bit :: "nat \<Rightarrow> nat" where
  "top_bit n = (if n < 2 then 0 else Suc (top_bit (n div 2)))"

declare top_bit.simps [simp del]

text \<open>
  The Go conversion \<^verbatim>\<open>float64(x)\<close> of an integer: the nearest binary64 value, ties to
  the even significand. With \<open>e\<close> the position of the top bit of \<open>|x|\<close>, the
  significand is \<open>|x|\<close> scaled to 53 bits; bits shifted out are rounded, and a carry
  out of the significand moves into the exponent field by the addition.
\<close>

definition float64_of_int :: "int \<Rightarrow> float64" where
  "float64_of_int x =
     (if x = 0 then 0
      else
        let m = nat \<bar>x\<bar>;
            e = top_bit m;
            q = (if e \<le> 52 then m * 2 ^ (52 - e)
                 else
                   let sh = e - 52;
                       t = m div 2 ^ sh;
                       r = m mod 2 ^ sh;
                       half = 2 ^ (sh - 1)
                   in if half < r \<or> (r = half \<and> odd t) then t + 1 else t);
            sign = (if x < 0 then 2 ^ 63 else 0)
        in word_of_nat (sign + (e + 1023) * 2 ^ 52 + (q - 2 ^ 52)))"

text \<open>
  Modelled from the spec: \<^verbatim>\<open>Number.CoerceToFloat64\<close> belongs to the OpenTelemetry API.
  An integer is widened, a floating-point value passes through.
\<close>

definition CoerceToFloat64 :: "Number \<Rightarrow> NumberKind \<Rightarrow> float64" where
  "CoerceToFloat64 n kind =
     (case kind of
        Int64NumberKind \<Rightarrow> float64_of_int (sint n)
      | Float64NumberKind \<Rightarrow> n)"

subsection \<open>Descriptors, aggregations, records and metrics\<close>

text \<open>
  A \<^verbatim>\<open>*metric.Descriptor\<close> is a pointer and may be nil: it is a \<open>Descriptor option\<close>.
\<close>

record Descriptor =
  Name :: string
  Unit :: string
  Description :: string
  NumberKind :: NumberKind

text \<open>
  The errors of the package: its own \<^verbatim>\<open>ErrUnimplementedAgg\<close>, and the errors that the
  accessors of an aggregation return, told apart by a name.
\<close>

datatype error = ErrUnimplementedAgg | AggregationError string

text \<open>
  The value a record holds as its aggregation has some dynamic type, and the type switch
  of \<^verbatim>\<open>Record\<close> asks which interfaces that type satisfies. So an aggregation is given
  by its method set: for each of \<^verbatim>\<open>Min\<close>, \<^verbatim>\<open>Max\<close>, \<^verbatim>\<open>Sum\<close> and \<^verbatim>\<open>Count\<close>,
  \<open>None\<close> when the type has no such method and otherwise the pair (value, error) that a
  call returns, with \<open>None\<close> for a nil error.
\<close>

record Aggregation =
  Min_method :: "(Number \<times> error option) option"
  Max_method :: "(Number \<times> error option) option"
  Sum_method :: "(Number \<times> error option) option"
  Count_method :: "(64 word \<times> error option) option"

text \<open>The interface \<^verbatim>\<open>aggregation.MinMaxSumCount\<close>: all four accessors.\<close>

record MinMaxSumCountAgg =
  mmsc_Min :: "Number \<times> error option"
  mmsc_Max :: "Number \<times> error option"
  mmsc_Sum :: "Number \<times> error option"
  mmsc_Count :: "64 word \<times> error option"

text \<open>The interface \<^verbatim>\<open>aggregation.Sum\<close>: the accessor \<^verbatim>\<open>Sum\<close>.\<close>

record SumAgg =
  sum_Sum :: "Number \<times> error option"

text \<open>A case of the type switch matches when the dynamic type has every method of the interface.\<close>

definition as_MinMaxSumCount :: "Aggregation \<Rightarrow> MinMaxSumCountAgg option" where
  "as_MinMaxSumCount a =
     (case (Min_method a, Max_method a, Sum_method a, Count_method a) of
        (Some mn, Some mx, Some sm, Some cnt) \<Rightarrow>
          Some \<lparr>mmsc_Min = mn, mmsc_Max = mx, mmsc_Sum = sm, mmsc_Count = cnt\<rparr>
      | _ \<Rightarrow> None)"

definition as_Sum :: "Aggregation \<Rightarrow> SumAgg option" where
  "as_Sum a = (case Sum_method a of Some sm \<Rightarrow> Some \<lparr>sum_Sum = sm\<rparr> | None \<Rightarrow> None)"

text \<open>A \<^verbatim>\<open>metricsdk.Record\<close>, read through \<^verbatim>\<open>Descriptor()\<close>, \<^verbatim>\<open>Labels()\<close> and \<^verbatim>\<open>Aggregation()\<close>.\<close>

record ExportRecord =
  rec_Descriptor :: "Descriptor option"
  rec_Labels :: label_set
  rec_Aggregation :: Aggregation

text \<open>
  The two metrics the package builds. Only the fields that the composite literals of
  \<^verbatim>\<open>sum\<close> and \<^verbatim>\<open>minMaxSumCount\<close> set are kept, in the order Name, Attributes, Value for
  a \<^verbatim>\<open>telemetry.Count\<close> and Name, Attributes, Count, Sum, Min, Max for a
  \<^verbatim>\<open>telemetry.Summary\<close>.
\<close>

datatype Metric =
    Count string attrs float64
  | Summary string attrs float64 float64 float64 float64

text \<open>
  What a call does: it returns its pair (metric, error), each of them possibly nil, or it
  panics on the dereference of a nil descriptor.
\<close>

datatype outcome = Return "Metric option" "error option" | Panic

text \<open>
  The calls a run makes, in order: the two converters and the four accessors. A function
  of the model returns its result together with the calls it made.
\<close>

datatype call =
    Call_sum | Call_minMaxSumCount
  | Call_Min | Call_Max | Call_Sum | Call_Count

subsection \<open>The identifiers of the package\<close>

text \<open>
  \<^verbatim>\<open>attributes\<close> uses five string constants of the package that another file declares.
  They are a parameter of the model.
\<close>

record identifiers =
  serviceNameAttrKey :: string
  instrumentationProviderAttrKey :: string
  instrumentationProviderAttrValue :: string
  collectorNameAttrKey :: string
  collectorNameAttrValue :: string

subsection \<open>attributes\<close>

text \<open>The number \<^verbatim>\<open>n\<close> that \<^verbatim>\<open>attributes\<close> computes as the capacity of the map it makes.\<close>

definition attributes_n :: "string \<Rightarrow> resource \<Rightarrow> Descriptor option \<Rightarrow> label_set \<Rightarrow> nat" where
  "attributes_n service res desc labels =
     (let n = 2 + length labels + length res;
          n = (case desc of
                 None \<Rightarrow> n
               | Some d \<Rightarrow>
                   (let n = (if Unit d \<noteq> '''' then n + 1 else n);
                        n = (if Description d \<noteq> '''' then n + 1 else n)
                    in n));
          n = (if service \<noteq> '''' then n + 1 else n)
      in n)"

text \<open>The loop \<^verbatim>\<open>for iter := s.Iter(); iter.Next(); { kv := iter.Label(); attrs[kv.Key] = kv.Value }\<close>.\<close>

fun insert_all :: "KeyValue list \<Rightarrow> attrs \<Rightarrow> attrs" where
  "insert_all [] attrs = attrs"
| "insert_all (kv # kvs) attrs = insert_all kvs (attrs(fst kv \<mapsto> snd kv))"

definition attributes ::
  "identifiers \<Rightarrow> string \<Rightarrow> resource \<Rightarrow> Descriptor option \<Rightarrow> label_set \<Rightarrow> attrs" where
  "attributes ids service res desc labels =
     (let attrs = Map.empty;
          attrs = insert_all res attrs;
          attrs = insert_all labels attrs;
          attrs = (case desc of
                     None \<Rightarrow> attrs
                   | Some d \<Rightarrow>
                       (let attrs = (if Unit d \<noteq> ''''
                                     then attrs(''unit'' \<mapsto> StringV (Unit d)) else attrs);
                            attrs = (if Description d \<noteq> ''''
                                     then attrs(''description'' \<mapsto> StringV (Description d))
                                     else attrs)
                        in attrs));
          attrs = (if service \<noteq> ''''
                   then attrs(serviceNameAttrKey ids \<mapsto> StringV service) else attrs);
          attrs = attrs(instrumentationProviderAttrKey ids \<mapsto>
                          StringV (instrumentationProviderAttrValue ids));
          attrs = attrs(collectorNameAttrKey ids \<mapsto> StringV (collectorNameAttrValue ids))
      in attrs)"

subsection \<open>The converters\<close>

text \<open>
  \<^verbatim>\<open>sum\<close>: the descriptor is dereferenced only after \<^verbatim>\<open>a.Sum()\<close> has returned a nil
  error.
\<close>

definition sum' :: "Descriptor option \<Rightarrow> attrs \<Rightarrow> SumAgg \<Rightarrow> outcome \<times> call list" where
  "sum' desc attrs a =
     (let (sm, err) = sum_Sum a;
          calls = [Call_sum, Call_Sum]
      in if err \<noteq> None then (Return None err, calls)
         else case desc of
                None \<Rightarrow> (Panic, calls)
              | Some d \<Rightarrow>
                  (Return (Some (Count (Name d) attrs (CoerceToFloat64 sm (NumberKind d)))) None,
                   calls))"

text \<open>
  \<^verbatim>\<open>minMaxSumCountValues\<close> has named results: a bare \<^verbatim>\<open>return\<close> hands back what has
  been assigned so far and the zero value of the rest.
\<close>

definition minMaxSumCountValues ::
  "MinMaxSumCountAgg \<Rightarrow> (Number \<times> Number \<times> Number \<times> 64 word \<times> error option) \<times> call list" where
  "minMaxSumCountValues a =
     (let (mn, err) = mmsc_Min a in
      if err \<noteq> None then ((mn, 0, 0, 0, err), [Call_Min])
      else
        let (mx, err) = mmsc_Max a in
        if err \<noteq> None then ((mn, mx, 0, 0, err), [Call_Min, Call_Max])
        else
          let (sm, err) = mmsc_Sum a in
          if err \<noteq> None then ((mn, mx, sm, 0, err), [Call_Min, Call_Max, Call_Sum])
          else
            let (cnt, err) = mmsc_Count a in
            if err \<noteq> None
            then ((mn, mx, sm, cnt, err), [Call_Min, Call_Max, Call_Sum, Call_Count])
            else ((mn, mx, sm, cnt, err), [Call_Min, Call_Max, Call_Sum, Call_Count]))"

definition minMaxSumCount ::
  "Descriptor option \<Rightarrow> attrs \<Rightarrow> MinMaxSumCountAgg \<Rightarrow> outcome \<times> call list" where
  "minMaxSumCount desc attrs a =
     (let ((mn, mx, sm, cnt, err), calls) = minMaxSumCountValues a;
          calls = Call_minMaxSumCount # calls
      in if err \<noteq> None then (Return None err, calls)
         else case desc of
                None \<Rightarrow> (Panic, calls)
              | Some d \<Rightarrow>
                  (Return (Some (Summary (Name d) attrs
                                   (float64_of_int (sint cnt))
                                   (CoerceToFloat64 sm (NumberKind d))
                                   (CoerceToFloat64 mn (NumberKind d))
                                   (CoerceToFloat64 mx (NumberKind d)))) None,
                   calls))"

subsection \<open>Record\<close>

definition Record ::
  "identifiers \<Rightarrow> string \<Rightarrow> resource \<Rightarrow> ExportRecord \<Rightarrow> outcome \<times> call list" where
  "Record ids service res record =
     (let desc = rec_Descriptor record;
          attrs = attributes ids service res desc (rec_Labels record)
      in case as_MinMaxSumCount (rec_Aggregation record) of
           Some a \<Rightarrow> minMaxSumCount desc attrs a
         | None \<Rightarrow>
             (case as_Sum (rec_Aggregation record) of
                Some a \<Rightarrow> sum' desc attrs a
              | None \<Rightarrow> (Return None (Some ErrUnimplementedAgg), [])))"

subsection \<open>The order of the writes\<close>

text \<open>
  The attribute mapping read as a sequence of writes: the value a key ends with is the
  value of the last write to it.
\<close>

fun last_writer :: "string \<Rightarrow> KeyValue list \<Rightarrow> go_value option" where
  "last_writer k [] = None"
| "last_writer k (kv # kvs) =
     (case last_writer k kvs of
        Some v \<Rightarrow> Some v
      | None \<Rightarrow> if fst kv = k then Some (snd kv) else None)"

text \<open>The entries derived from the descriptor: unit, then description, each when non-empty.\<close>

definition descriptor_entries :: "Descriptor option \<Rightarrow> KeyValue list" where
  "descriptor_entries desc =
     (case desc of
        None \<Rightarrow> []
      | Some d \<Rightarrow>
          (if Unit d \<noteq> '''' then [(''unit'', StringV (Unit d))] else []) @
          (if Description d \<noteq> '''' then [(''description'', StringV (Description d))] else []))"

text \<open>The service entry, when the service name is non-empty.\<close>

definition service_entries :: "identifiers \<Rightarrow> string \<Rightarrow> KeyValue list" where
  "service_entries ids service =
     (if service \<noteq> '''' then [(serviceNameAttrKey ids, StringV service)] else [])"

text \<open>The two provenance entries: instrumentation provider, then collector name.\<close>

definition provenance_entries :: "identifiers \<Rightarrow> KeyValue list" where
  "provenance_entries ids =
     [(instrumentationProviderAttrKey ids, StringV (instrumentationProviderAttrValue ids)),
      (collectorNameAttrKey ids, StringV (collectorNameAttrValue ids))]"

text \<open>The converters among the calls of a run.\<close>

definition converter_calls :: "call list \<Rightarrow> call list" where
  "converter_calls calls = filter (\<lambda>c. c = Call_sum \<or> c = Call_minMaxSumCount) calls"

subsection \<open>Concrete inputs\<close>

text \<open>
  An instance of the identifiers, with pairwise distinct keys, on which the theorems
  below are evaluated. The theorems themselves hold for every instance.
\<close>

definition example_identifiers :: identifiers where
  "example_identifiers =
     \<lparr>serviceNameAttrKey = ''service.name'',
      instrumentationProviderAttrKey = ''instrumentation.provider'',
      instrumentationProviderAttrValue = ''opentelemetry'',
      collectorNameAttrKey = ''collector.name'',
      collectorNameAttrValue = ''newrelic-opentelemetry-exporter''\<rparr>"

text \<open>A descriptor of integer kind and one of floating-point kind.\<close>

definition latency_descriptor :: Descriptor where
  "latency_descriptor =
     \<lparr>Name = ''latency'', Unit = ''ms'', Description = ''time to respond'',
      NumberKind = Int64NumberKind\<rparr>"

definition requests_descriptor :: Descriptor where
  "requests_descriptor =
     \<lparr>Name = ''requests'', Unit = '''', Description = '''', NumberKind = Float64NumberKind\<rparr>"

text \<open>
  Aggregations by their method sets: one with \<^verbatim>\<open>Sum\<close> alone, one with all four
  accessors (so it satisfies both interfaces of the type switch), one whose \<^verbatim>\<open>Min\<close>
  fails, one without \<^verbatim>\<open>Sum\<close>, one shaped like a histogram (\<^verbatim>\<open>Sum\<close> and \<^verbatim>\<open>Count\<close>
  but neither \<^verbatim>\<open>Min\<close> nor \<^verbatim>\<open>Max\<close>), and one with no accessor at all.
\<close>

definition sum_aggregation :: "Number \<times> error option \<Rightarrow> Aggregation" where
  "sum_aggregation r =
     \<lparr>Min_method = None, Max_method = None, Sum_method = Some r, Count_method = None\<rparr>"

definition mmsc_aggregation :: Aggregation where
  "mmsc_aggregation =
     \<lparr>Min_method = Some (1, None), Max_method = Some (10, None),
      Sum_method = Some (20, None), Count_method = Some (4, None)\<rparr>"

definition failing_min :: MinMaxSumCountAgg where
  "failing_min =
     \<lparr>mmsc_Min = (0, Some (AggregationError ''no data'')), mmsc_Max = (10, None),
      mmsc_Sum = (20, None), mmsc_Count = (4, None)\<rparr>"

definition min_max_count_aggregation :: Aggregation where
  "min_max_count_aggregation =
     \<lparr>Min_method = Some (1, None), Max_method = Some (10, None),
      Sum_method = None, Count_method = Some (4, None)\<rparr>"

definition histogram_aggregation :: Aggregation where
  "histogram_aggregation =
     \<lparr>Min_method = None, Max_method = None,
      Sum_method = Some (20, None), Count_method = Some (4, None)\<rparr>"

definition bare_aggregation :: Aggregation where
  "bare_aggregation =
     \<lparr>Min_method = None, Max_method = None, Sum_method = None, Count_method = None\<rparr>"

definition example_record :: "Descriptor option \<Rightarrow> Aggregation \<Rightarrow> ExportRecord" where
  "example_record desc agg =
     \<lparr>rec_Descriptor = desc, rec_Labels = [(''a'', StringV ''l1''), (''c'', StringV ''l3'')],
      rec_Aggregation = agg\<rparr>"

definition example_resource :: resource where
  "example_resource = [(''a'', StringV ''r1''), (''b'', StringV ''r2'')]"

section \<open>Properties\<close>

subsection \<open>Evaluating the conversion to float64\<close>

text \<open>\<open>top_bit\<close> finds the exponent: the \<open>e\<close> with \<open>2 ^ e \<le> n < 2 ^ (e + 1)\<close>.\<close>

lemma top_bit_eq: "2 ^ e \<le> n \<Longrightarrow> n < 2 ^ Suc e \<Longrightarrow> top_bit n = e"
proof (induction e arbitrary: n)
  case 0
  then show ?case by (simp add: top_bit.simps)
next
  case (Suc e)
  from Suc.prems have "2 ^ e \<le> n div 2" "n div 2 < 2 ^ Suc e" by auto
  then have "top_bit (n div 2) = e" by (rule Suc.IH)
  moreover have "(2::nat) \<le> 2 ^ Suc e" by simp
  with Suc.prems have "\<not> n < 2" by linarith
  ultimately show ?case by (subst top_bit.simps) simp
qed

lemma top_bit_1: "top_bit (Suc 0) = 0"
  by (rule top_bit_eq) simp_all

lemma top_bit_4: "top_bit 4 = 2"
  by (rule top_bit_eq) simp_all

lemma top_bit_10: "top_bit 10 = 3"
  by (rule top_bit_eq) simp_all

lemma top_bit_20: "top_bit 20 = 4"
  by (rule top_bit_eq) simp_all

lemma float64_of_int_1: "float64_of_int 1 = 0x3FF0000000000000"
  by (simp add: float64_of_int_def Let_def top_bit_1)

lemma float64_of_int_4: "float64_of_int 4 = 0x4010000000000000"
  by (simp add: float64_of_int_def Let_def top_bit_4)

lemma float64_of_int_10: "float64_of_int 10 = 0x4024000000000000"
  by (simp add: float64_of_int_def Let_def top_bit_10)

lemma float64_of_int_20: "float64_of_int 20 = 0x4034000000000000"
  by (simp add: float64_of_int_def Let_def top_bit_20)

text \<open>
  Beyond 53 bits the conversion rounds to nearest, ties to even: \<open>2 ^ 53 + 1\<close> goes
  down to \<open>2 ^ 53\<close>, \<open>2 ^ 53 + 3\<close> goes up to \<open>2 ^ 53 + 4\<close>, and the largest
  int64 goes up to \<open>2 ^ 63\<close>.
\<close>

lemma float64_of_int_tie_down: "float64_of_int (2 ^ 53 + 1) = 0x4340000000000000"
proof -
  have "top_bit (2 ^ 53 + 1) = 53" by (rule top_bit_eq) simp_all
  then show ?thesis by (simp add: float64_of_int_def Let_def)
qed

lemma float64_of_int_tie_up: "float64_of_int (2 ^ 53 + 3) = 0x4340000000000002"
proof -
  have "top_bit (2 ^ 53 + 3) = 53" by (rule top_bit_eq) simp_all
  then show ?thesis by (simp add: float64_of_int_def Let_def)
qed

lemma float64_of_int_max: "float64_of_int (2 ^ 63 - 1) = 0x43E0000000000000"
proof -
  have "top_bit (2 ^ 63 - 1) = 62" by (rule top_bit_eq) simp_all
  then show ?thesis by (simp add: float64_of_int_def Let_def)
qed

lemma float64_of_int_min: "float64_of_int (- (2 ^ 63)) = 0xC3E0000000000000"
proof -
  have "top_bit (2 ^ 63) = 63" by (rule top_bit_eq) simp_all
  then show ?thesis by (simp add: float64_of_int_def Let_def)
qed

subsection \<open>The attribute mapping as a sequence of writes\<close>

lemma insert_all_append: "insert_all (xs @ ys) m = insert_all ys (insert_all xs m)"
  by (induction xs arbitrary: m) simp_all

lemma insert_all_last_writer:
  "insert_all kvs m k = (case last_writer k kvs of Some v \<Rightarrow> Some v | None \<Rightarrow> m k)"
  by (induction kvs arbitrary: m) (auto split: option.splits)

lemma attributes_insert_all:
  "attributes ids service res desc labels =
     insert_all (res @ labels @ descriptor_entries desc @ service_entries ids service @
                 provenance_entries ids) Map.empty"
  by (simp add: attributes_def insert_all_append descriptor_entries_def service_entries_def
      provenance_entries_def Let_def split: option.splits)

lemma last_writer_append:
  "last_writer k (xs @ ys) =
     (case last_writer k ys of Some v \<Rightarrow> Some v | None \<Rightarrow> last_writer k xs)"
  by (induction xs) (auto split: option.splits)

lemma last_writer_None_iff: "last_writer k kvs = None \<longleftrightarrow> k \<notin> fst ` set kvs"
  by (induction kvs) (auto split: option.splits)

lemma attributes_last_writer:
  "attributes ids service res desc labels k =
     last_writer k (res @ labels @ descriptor_entries desc @ service_entries ids service @
                    provenance_entries ids)"
  by (simp add: attributes_insert_all insert_all_last_writer split: option.splits)

lemma dom_insert_all: "dom (insert_all kvs m) = dom m \<union> fst ` set kvs"
  by (induction kvs arbitrary: m) auto

lemma finite_dom_attributes: "finite (dom (attributes ids service res desc labels))"
  by (simp add: attributes_insert_all dom_insert_all)

subsection \<open>The calls of the converters\<close>

lemma converter_calls_Nil: "converter_calls [] = []"
  by (simp add: converter_calls_def)

lemma converter_calls_sum': "converter_calls (snd (sum' desc attrs a)) = [Call_sum]"
  by (simp add: sum'_def converter_calls_def Let_def split: prod.splits option.splits)

lemma converter_calls_minMaxSumCountValues: "converter_calls (snd (minMaxSumCountValues a)) = []"
  by (simp add: minMaxSumCountValues_def converter_calls_def split: prod.splits)

lemma converter_calls_minMaxSumCount:
  "converter_calls (snd (minMaxSumCount desc attrs a)) = [Call_minMaxSumCount]"
proof -
  obtain mn mx sm cnt err calls where v: "minMaxSumCountValues a = ((mn, mx, sm, cnt, err), calls)"
    by (metis prod.exhaust)
  with converter_calls_minMaxSumCountValues [of a] have "converter_calls calls = []" by simp
  then show ?thesis
    using v by (simp add: minMaxSumCount_def converter_calls_def Let_def split: option.splits)
qed

text \<open>
  The type switch on the example aggregations.
\<close>

lemma as_MinMaxSumCount_examples:
  "as_MinMaxSumCount (sum_aggregation r) = None"
  "as_MinMaxSumCount mmsc_aggregation =
     Some \<lparr>mmsc_Min = (1, None), mmsc_Max = (10, None), mmsc_Sum = (20, None),
           mmsc_Count = (4, None)\<rparr>"
  "as_MinMaxSumCount min_max_count_aggregation = None"
  "as_MinMaxSumCount bare_aggregation = None"
  by (simp_all add: as_MinMaxSumCount_def sum_aggregation_def mmsc_aggregation_def
      min_max_count_aggregation_def bare_aggregation_def)

lemma as_Sum_examples:
  "as_Sum (sum_aggregation r) = Some \<lparr>sum_Sum = r\<rparr>"
  "as_Sum mmsc_aggregation = Some \<lparr>sum_Sum = (20, None)\<rparr>"
  "as_Sum min_max_count_aggregation = None"
  "as_Sum bare_aggregation = None"
  by (simp_all add: as_Sum_def sum_aggregation_def mmsc_aggregation_def
      min_max_count_aggregation_def bare_aggregation_def)

text \<open>
  With a nil descriptor a converter whose extraction succeeds dereferences nil: the call
  panics and returns nothing.
\<close>

lemma sum'_nil_descriptor: "snd (sum_Sum a) = None \<Longrightarrow> fst (sum' None attrs a) = Panic"
  by (cases "sum_Sum a") (simp add: sum'_def Let_def)

subsection \<open>The claims\<close>

text \<open>
  C1. The attribute mapping is a map from string keys to primitive values, so a key has
  at most one value. For every service, resource, descriptor and label set the value of a
  key is the value of the last write to it in the order resource entries, point labels,
  descriptor-derived entries (unit, description), service entry, provenance entries. In
  particular the last label written for a key is its final value whenever no later
  source writes the key, whatever the resource holds for it.
\<close>

theorem attributes_last_writer_wins:
  "attributes ids service res desc labels k =
     last_writer k (res @ labels @ descriptor_entries desc @ service_entries ids service @
                    provenance_entries ids)
   \<and> (last_writer k labels = Some v \<and>
        k \<notin> fst ` set (descriptor_entries desc @ service_entries ids service @
                         provenance_entries ids)
        \<longrightarrow> attributes ids service res desc labels k = Some v)"
proof -
  have eq: "attributes ids service res desc labels k =
     last_writer k (res @ labels @ descriptor_entries desc @ service_entries ids service @
                    provenance_entries ids)"
    by (rule attributes_last_writer)
  have "attributes ids service res desc labels k = Some v"
    if l: "last_writer k labels = Some v"
      and n: "k \<notin> fst ` set (descriptor_entries desc @ service_entries ids service @
                         provenance_entries ids)"
  proof -
    from n have "last_writer k (descriptor_entries desc @ service_entries ids service @
                         provenance_entries ids) = None"
      by (simp add: last_writer_None_iff)
    then show ?thesis
      using l by (simp add: eq last_writer_append [of k res] last_writer_append [of k labels])
  qed
  with eq show ?thesis by blast
qed

theorem attributes_last_writer_wins_witness:
  "last_writer ''a'' [(''a'', StringV ''l1''), (''c'', StringV ''l3'')] = Some (StringV ''l1'')
   \<and> ''a'' \<notin> fst ` set (descriptor_entries None @ service_entries example_identifiers '''' @
                         provenance_entries example_identifiers)
   \<and> attributes example_identifiers '''' [(''a'', StringV ''r1''), (''b'', StringV ''r2'')] None
         [(''a'', StringV ''l1''), (''c'', StringV ''l3'')] ''a'' = Some (StringV ''l1'')"
  using attributes_last_writer_wins [of example_identifiers "''''"
      "[(''a'', StringV ''r1''), (''b'', StringV ''r2'')]" None
      "[(''a'', StringV ''l1''), (''c'', StringV ''l3'')]" "''a''" "StringV ''l1''"]
  by (simp add: descriptor_entries_def service_entries_def provenance_entries_def
      example_identifiers_def)

text \<open>
  C2. \<^verbatim>\<open>Record\<close> routes by the interface that the aggregation satisfies, in the order
  of its type switch. An aggregation with all four accessors goes to \<^verbatim>\<open>minMaxSumCount\<close>
  and the result of \<^verbatim>\<open>Record\<close> is the result of that converter; an aggregation with
  \<^verbatim>\<open>Sum\<close> that lacks one of the others goes to \<^verbatim>\<open>sum\<close>. In both cases exactly one
  converter is called, also for an aggregation that satisfies both interfaces, and no
  call of \<^verbatim>\<open>Record\<close> invokes more than one.
\<close>

theorem Record_routes:
  "(as_MinMaxSumCount (rec_Aggregation record) = Some a \<longrightarrow>
      Record ids service res record =
        minMaxSumCount (rec_Descriptor record)
          (attributes ids service res (rec_Descriptor record) (rec_Labels record)) a
      \<and> converter_calls (snd (Record ids service res record)) = [Call_minMaxSumCount])
   \<and> (as_MinMaxSumCount (rec_Aggregation record) = None \<and>
       as_Sum (rec_Aggregation record) = Some s \<longrightarrow>
      Record ids service res record =
        sum' (rec_Descriptor record)
          (attributes ids service res (rec_Descriptor record) (rec_Labels record)) s
      \<and> converter_calls (snd (Record ids service res record)) = [Call_sum])
   \<and> length (converter_calls (snd (Record ids service res record))) \<le> 1"
  by (simp add: Record_def Let_def converter_calls_sum' converter_calls_minMaxSumCount
      converter_calls_Nil split: option.splits)

theorem Record_routes_witness:
  "as_MinMaxSumCount (rec_Aggregation (example_record (Some latency_descriptor) mmsc_aggregation))
     = Some \<lparr>mmsc_Min = (1, None), mmsc_Max = (10, None), mmsc_Sum = (20, None),
             mmsc_Count = (4, None)\<rparr>
   \<and> as_Sum (rec_Aggregation (example_record (Some latency_descriptor) mmsc_aggregation))
     = Some \<lparr>sum_Sum = (20, None)\<rparr>
   \<and> snd (Record example_identifiers ''checkout-api'' example_resource
             (example_record (Some latency_descriptor) mmsc_aggregation))
     = [Call_minMaxSumCount, Call_Min, Call_Max, Call_Sum, Call_Count]
   \<and> as_MinMaxSumCount
        (rec_Aggregation (example_record (Some latency_descriptor) (sum_aggregation (7, None))))
     = None
   \<and> as_Sum (rec_Aggregation (example_record (Some latency_descriptor) (sum_aggregation (7, None))))
     = Some \<lparr>sum_Sum = (7, None)\<rparr>
   \<and> snd (Record example_identifiers ''checkout-api'' example_resource
             (example_record (Some latency_descriptor) (sum_aggregation (7, None))))
     = [Call_sum, Call_Sum]"
  using Record_routes [of "example_record (Some latency_descriptor) mmsc_aggregation"
      "\<lparr>mmsc_Min = (1, None), mmsc_Max = (10, None), mmsc_Sum = (20, None),
        mmsc_Count = (4, None)\<rparr>" example_identifiers "''checkout-api''" example_resource]
    Record_routes [of "example_record (Some latency_descriptor) (sum_aggregation (7, None))"
      undefined example_identifiers "''checkout-api''" example_resource "\<lparr>sum_Sum = (7, None)\<rparr>"]
  by (simp add: example_record_def as_MinMaxSumCount_examples as_Sum_examples
      minMaxSumCount_def minMaxSumCountValues_def sum'_def Let_def)

text \<open>
  C3, as stated, fails: the type switch tests interfaces, not kinds, so an aggregation of
  another kind that has a \<^verbatim>\<open>Sum\<close> accessor is converted. A histogram-shaped
  aggregation, with \<^verbatim>\<open>Sum\<close> and \<^verbatim>\<open>Count\<close> but neither \<^verbatim>\<open>Min\<close> nor \<^verbatim>\<open>Max\<close>, goes
  to \<^verbatim>\<open>sum\<close> and comes back as a Count metric with a nil error.
\<close>

theorem Record_histogram_counterexample:
  "Record example_identifiers ''checkout-api'' example_resource
     (example_record (Some latency_descriptor) histogram_aggregation)
   = (Return (Some (Count ''latency''
                (attributes example_identifiers ''checkout-api'' example_resource
                   (Some latency_descriptor) [(''a'', StringV ''l1''), (''c'', StringV ''l3'')])
                0x4034000000000000)) None,
      [Call_sum, Call_Sum])"
  by (simp add: Record_def example_record_def histogram_aggregation_def as_MinMaxSumCount_def
      as_Sum_def sum'_def Let_def latency_descriptor_def CoerceToFloat64_def float64_of_int_20)

text \<open>
  C3, amended. For every record whose aggregation has no \<^verbatim>\<open>Sum\<close> accessor, and so
  satisfies neither \<^verbatim>\<open>aggregation.MinMaxSumCount\<close> nor \<^verbatim>\<open>aggregation.Sum\<close>,
  \<^verbatim>\<open>Record\<close> returns a nil metric together with \<^verbatim>\<open>ErrUnimplementedAgg\<close> and calls no
  converter and no accessor. For every record whose aggregation has a \<^verbatim>\<open>Sum\<close>
  accessor, whatever its kind, \<^verbatim>\<open>Record\<close> calls one converter.
\<close>

theorem Record_unimplemented:
  "(Sum_method (rec_Aggregation record) = None \<longrightarrow>
      Record ids service res record = (Return None (Some ErrUnimplementedAgg), []))
   \<and> (Sum_method (rec_Aggregation record) \<noteq> None \<longrightarrow>
      length (converter_calls (snd (Record ids service res record))) = 1)"
proof (intro conjI impI)
  assume n: "Sum_method (rec_Aggregation record) = None"
  then have "as_MinMaxSumCount (rec_Aggregation record) = None"
    by (simp add: as_MinMaxSumCount_def split: option.splits)
  moreover from n have "as_Sum (rec_Aggregation record) = None"
    by (simp add: as_Sum_def)
  ultimately show "Record ids service res record = (Return None (Some ErrUnimplementedAgg), [])"
    by (simp add: Record_def)
next
  assume "Sum_method (rec_Aggregation record) \<noteq> None"
  then obtain s where s: "as_Sum (rec_Aggregation record) = Some s"
    by (auto simp: as_Sum_def)
  show "length (converter_calls (snd (Record ids service res record))) = 1"
  proof (cases "as_MinMaxSumCount (rec_Aggregation record)")
    case None
    with s show ?thesis
      by (simp add: Record_def Let_def converter_calls_sum')
  next
    case (Some a)
    then show ?thesis
      by (simp add: Record_def Let_def converter_calls_minMaxSumCount)
  qed
qed

theorem Record_unimplemented_witness:
  "Sum_method
     (rec_Aggregation (example_record (Some latency_descriptor) min_max_count_aggregation)) = None
   \<and> Record example_identifiers ''checkout-api'' example_resource
        (example_record (Some latency_descriptor) min_max_count_aggregation)
      = (Return None (Some ErrUnimplementedAgg), [])
   \<and> Sum_method
     (rec_Aggregation (example_record (Some latency_descriptor) histogram_aggregation))
      = Some (20, None)
   \<and> length (converter_calls (snd (Record example_identifiers ''checkout-api'' example_resource
        (example_record (Some latency_descriptor) histogram_aggregation)))) = 1"
  using Record_unimplemented [of
      "example_record (Some latency_descriptor) min_max_count_aggregation"
      example_identifiers "''checkout-api''" example_resource]
    Record_unimplemented [of
      "example_record (Some latency_descriptor) histogram_aggregation"
      example_identifiers "''checkout-api''" example_resource]
  by (simp add: example_record_def min_max_count_aggregation_def histogram_aggregation_def)

text \<open>
  C4. \<^verbatim>\<open>minMaxSumCount\<close> calls \<^verbatim>\<open>Min\<close>, \<^verbatim>\<open>Max\<close>, \<^verbatim>\<open>Sum\<close> and \<^verbatim>\<open>Count\<close> in
  that order. At the first accessor that returns an error the remaining accessors are
  not called, the error returned is that accessor's error, and the metric is nil. When
  none fails, all four have been called, in order.
\<close>

theorem minMaxSumCount_short_circuit:
  "(snd (mmsc_Min a) = Some e \<longrightarrow>
      minMaxSumCount desc attrs a = (Return None (Some e), [Call_minMaxSumCount, Call_Min]))
   \<and> (snd (mmsc_Min a) = None \<and> snd (mmsc_Max a) = Some e \<longrightarrow>
      minMaxSumCount desc attrs a =
        (Return None (Some e), [Call_minMaxSumCount, Call_Min, Call_Max]))
   \<and> (snd (mmsc_Min a) = None \<and> snd (mmsc_Max a) = None \<and> snd (mmsc_Sum a) = Some e \<longrightarrow>
      minMaxSumCount desc attrs a =
        (Return None (Some e), [Call_minMaxSumCount, Call_Min, Call_Max, Call_Sum]))
   \<and> (snd (mmsc_Min a) = None \<and> snd (mmsc_Max a) = None \<and> snd (mmsc_Sum a) = None \<and>
       snd (mmsc_Count a) = Some e \<longrightarrow>
      minMaxSumCount desc attrs a =
        (Return None (Some e), [Call_minMaxSumCount, Call_Min, Call_Max, Call_Sum, Call_Count]))
   \<and> (snd (mmsc_Min a) = None \<and> snd (mmsc_Max a) = None \<and> snd (mmsc_Sum a) = None \<and>
       snd (mmsc_Count a) = None \<longrightarrow>
      snd (minMaxSumCount desc attrs a) =
        [Call_minMaxSumCount, Call_Min, Call_Max, Call_Sum, Call_Count])"
  by (cases "mmsc_Min a"; cases "mmsc_Max a"; cases "mmsc_Sum a"; cases "mmsc_Count a")
     (simp add: minMaxSumCount_def minMaxSumCountValues_def Let_def split: option.splits)

theorem minMaxSumCount_short_circuit_witness:
  "snd (mmsc_Min failing_min) = Some (AggregationError ''no data'')
   \<and> minMaxSumCount (Some latency_descriptor) Map.empty failing_min
       = (Return None (Some (AggregationError ''no data'')), [Call_minMaxSumCount, Call_Min])"
  using minMaxSumCount_short_circuit [of failing_min "AggregationError ''no data''"
      "Some latency_descriptor" Map.empty]
  by (simp add: failing_min_def)

text \<open>
  C5. For every record that reaches the \<^verbatim>\<open>aggregation.Sum\<close> case of the type switch:
  when \<^verbatim>\<open>Sum()\<close> returns a nil error (and the record has a descriptor), the result is a
  Count metric whose name is the descriptor's name, whose attributes are the merged
  attribute mapping and whose value is the sum coerced by the descriptor's number kind,
  together with a nil error; when \<^verbatim>\<open>Sum()\<close> returns an error, the result is a nil
  metric together with that same error.
\<close>

theorem Record_sum:
  "as_MinMaxSumCount (rec_Aggregation record) = None \<Longrightarrow>
   Sum_method (rec_Aggregation record) = Some (v, err) \<Longrightarrow>
   (err = None \<and> rec_Descriptor record = Some d \<longrightarrow>
      fst (Record ids service res record) =
        Return (Some (Count (Name d)
                        (attributes ids service res (Some d) (rec_Labels record))
                        (CoerceToFloat64 v (NumberKind d)))) None)
   \<and> (err = Some e \<longrightarrow> fst (Record ids service res record) = Return None (Some e))"
  by (simp add: Record_def as_Sum_def sum'_def Let_def)

theorem Record_sum_witness:
  "as_MinMaxSumCount
     (rec_Aggregation (example_record (Some requests_descriptor)
        (sum_aggregation (0x4045400000000000, None)))) = None
   \<and> Sum_method
     (rec_Aggregation (example_record (Some requests_descriptor)
        (sum_aggregation (0x4045400000000000, None)))) = Some (0x4045400000000000, None)
   \<and> fst (Record example_identifiers ''checkout-api'' example_resource
            (example_record (Some requests_descriptor)
               (sum_aggregation (0x4045400000000000, None))))
      = Return (Some (Count ''requests''
                  (attributes example_identifiers ''checkout-api'' example_resource
                     (Some requests_descriptor) [(''a'', StringV ''l1''), (''c'', StringV ''l3'')])
                  0x4045400000000000)) None
   \<and> fst (Record example_identifiers ''checkout-api'' example_resource
            (example_record (Some requests_descriptor)
               (sum_aggregation (0, Some (AggregationError ''no data'')))))
      = Return None (Some (AggregationError ''no data''))"
  using Record_sum [of "example_record (Some requests_descriptor)
        (sum_aggregation (0x4045400000000000, None))" "0x4045400000000000" None
        requests_descriptor example_identifiers "''checkout-api''" example_resource]
    Record_sum [of "example_record (Some requests_descriptor)
        (sum_aggregation (0, Some (AggregationError ''no data'')))" 0
        "Some (AggregationError ''no data'')" requests_descriptor example_identifiers
        "''checkout-api''" example_resource "AggregationError ''no data''"]
  by (simp add: example_record_def as_MinMaxSumCount_def sum_aggregation_def
      requests_descriptor_def CoerceToFloat64_def)

text \<open>
  C6. For every record whose aggregation has all four accessors, each returning a nil
  error (and that has a descriptor), the result is a Summary metric with the
  descriptor's name and the merged attributes, in which min, max and sum are coerced by
  the descriptor's number kind and count is converted from its int64 directly, whatever
  the number kind is. With min 1, max 10, sum 20 and count 4 the fields are the float64
  values 1, 10, 20 and 4.
\<close>

theorem Record_minMaxSumCount:
  "Min_method (rec_Aggregation record) = Some (mn, None) \<Longrightarrow>
   Max_method (rec_Aggregation record) = Some (mx, None) \<Longrightarrow>
   Sum_method (rec_Aggregation record) = Some (sm, None) \<Longrightarrow>
   Count_method (rec_Aggregation record) = Some (cnt, None) \<Longrightarrow>
   rec_Descriptor record = Some d \<Longrightarrow>
   fst (Record ids service res record) =
     Return (Some (Summary (Name d)
                     (attributes ids service res (Some d) (rec_Labels record))
                     (float64_of_int (sint cnt))
                     (CoerceToFloat64 sm (NumberKind d))
                     (CoerceToFloat64 mn (NumberKind d))
                     (CoerceToFloat64 mx (NumberKind d)))) None"
  by (simp add: Record_def as_MinMaxSumCount_def minMaxSumCount_def minMaxSumCountValues_def
      Let_def)

theorem Record_minMaxSumCount_witness:
  "Min_method (rec_Aggregation (example_record (Some latency_descriptor) mmsc_aggregation))
     = Some (1, None)
   \<and> Max_method (rec_Aggregation (example_record (Some latency_descriptor) mmsc_aggregation))
     = Some (10, None)
   \<and> Sum_method (rec_Aggregation (example_record (Some latency_descriptor) mmsc_aggregation))
     = Some (20, None)
   \<and> Count_method (rec_Aggregation (example_record (Some latency_descriptor) mmsc_aggregation))
     = Some (4, None)
   \<and> fst (Record example_identifiers ''checkout-api'' example_resource
            (example_record (Some latency_descriptor) mmsc_aggregation))
      = Return (Some (Summary ''latency''
                  (attributes example_identifiers ''checkout-api'' example_resource
                     (Some latency_descriptor) [(''a'', StringV ''l1''), (''c'', StringV ''l3'')])
                  0x4010000000000000 0x4034000000000000 0x3FF0000000000000
                  0x4024000000000000)) None
   \<and> fst (Record example_identifiers ''checkout-api'' example_resource
            (example_record (Some requests_descriptor) mmsc_aggregation))
      = Return (Some (Summary ''requests''
                  (attributes example_identifiers ''checkout-api'' example_resource
                     (Some requests_descriptor) [(''a'', StringV ''l1''), (''c'', StringV ''l3'')])
                  0x4010000000000000 20 1 10)) None"
  using Record_minMaxSumCount [of "example_record (Some latency_descriptor) mmsc_aggregation"
        1 10 20 4 latency_descriptor example_identifiers "''checkout-api''" example_resource]
    Record_minMaxSumCount [of "example_record (Some requests_descriptor) mmsc_aggregation"
        1 10 20 4 requests_descriptor example_identifiers "''checkout-api''" example_resource]
  by (simp add: example_record_def mmsc_aggregation_def latency_descriptor_def
      requests_descriptor_def CoerceToFloat64_def float64_of_int_1 float64_of_int_4
      float64_of_int_10 float64_of_int_20)

text \<open>
  C7. For every service, resource, descriptor and label set, also when resource entries
  or labels use the provenance keys, the attribute mapping binds the
  instrumentation-provider key and the collector-name key, two distinct keys, to their
  fixed values.
\<close>

theorem attributes_provenance:
  "instrumentationProviderAttrKey ids \<noteq> collectorNameAttrKey ids \<Longrightarrow>
   attributes ids service res desc labels (instrumentationProviderAttrKey ids) =
     Some (StringV (instrumentationProviderAttrValue ids))
   \<and> attributes ids service res desc labels (collectorNameAttrKey ids) =
     Some (StringV (collectorNameAttrValue ids))"
  by (simp add: attributes_def Let_def)

theorem attributes_provenance_witness:
  "instrumentationProviderAttrKey example_identifiers \<noteq> collectorNameAttrKey example_identifiers
   \<and> attributes example_identifiers ''checkout-api''
        [(''instrumentation.provider'', StringV ''mine''), (''collector.name'', BoolV True)]
        (Some latency_descriptor)
        [(''collector.name'', StringV ''other''), (''instrumentation.provider'', Int64V 7)]
        ''instrumentation.provider'' = Some (StringV ''opentelemetry'')
   \<and> attributes example_identifiers ''checkout-api''
        [(''instrumentation.provider'', StringV ''mine''), (''collector.name'', BoolV True)]
        (Some latency_descriptor)
        [(''collector.name'', StringV ''other''), (''instrumentation.provider'', Int64V 7)]
        ''collector.name'' = Some (StringV ''newrelic-opentelemetry-exporter'')"
  using attributes_provenance [of example_identifiers "''checkout-api''"
        "[(''instrumentation.provider'', StringV ''mine''), (''collector.name'', BoolV True)]"
        "Some latency_descriptor"
        "[(''collector.name'', StringV ''other''), (''instrumentation.provider'', Int64V 7)]"]
  by (simp add: example_identifiers_def)

text \<open>
  C8, as stated, fails: with an empty service name the service-name key is still bound
  when a resource entry uses it.
\<close>

theorem attributes_service_empty_counterexample:
  "attributes example_identifiers '''' [(''service.name'', StringV ''checkout-api'')] None []
     (serviceNameAttrKey example_identifiers) = Some (StringV ''checkout-api'')"
  by (simp add: attributes_def example_identifiers_def)

text \<open>
  C8, amended. The service-name key being distinct from the provenance keys: when the
  service argument is empty the builder writes no service entry, so the service-name key
  has the value of the last resource entry, label or descriptor-derived entry with that
  key, and is absent exactly when there is none; when the service argument is non-empty
  the key is bound to exactly that string.
\<close>

theorem attributes_service:
  "serviceNameAttrKey ids \<noteq> instrumentationProviderAttrKey ids \<Longrightarrow>
   serviceNameAttrKey ids \<noteq> collectorNameAttrKey ids \<Longrightarrow>
   (service = '''' \<longrightarrow>
      attributes ids service res desc labels (serviceNameAttrKey ids) =
        last_writer (serviceNameAttrKey ids) (res @ labels @ descriptor_entries desc)
      \<and> (attributes ids service res desc labels (serviceNameAttrKey ids) = None \<longleftrightarrow>
           serviceNameAttrKey ids \<notin> fst ` set (res @ labels @ descriptor_entries desc)))
   \<and> (service \<noteq> '''' \<longrightarrow>
      attributes ids service res desc labels (serviceNameAttrKey ids) = Some (StringV service))"
proof (intro conjI impI)
  assume a: "serviceNameAttrKey ids \<noteq> instrumentationProviderAttrKey ids"
    "serviceNameAttrKey ids \<noteq> collectorNameAttrKey ids"
  {
    assume "service = ''''"
    then show e: "attributes ids service res desc labels (serviceNameAttrKey ids) =
        last_writer (serviceNameAttrKey ids) (res @ labels @ descriptor_entries desc)"
      using a
      by (simp add: attributes_last_writer service_entries_def provenance_entries_def
          last_writer_append [of _ res] last_writer_append [of _ labels]
          last_writer_append [of _ "descriptor_entries desc"] split: option.splits)
    show "attributes ids service res desc labels (serviceNameAttrKey ids) = None \<longleftrightarrow>
           serviceNameAttrKey ids \<notin> fst ` set (res @ labels @ descriptor_entries desc)"
      by (simp only: e last_writer_None_iff)
  }
  {
    assume "service \<noteq> ''''"
    then show "attributes ids service res desc labels (serviceNameAttrKey ids) =
        Some (StringV service)"
      using a by (simp add: attributes_def Let_def)
  }
qed

theorem attributes_service_witness:
  "serviceNameAttrKey example_identifiers \<noteq> instrumentationProviderAttrKey example_identifiers
   \<and> serviceNameAttrKey example_identifiers \<noteq> collectorNameAttrKey example_identifiers
   \<and> ''checkout-api'' \<noteq> ''''
   \<and> attributes example_identifiers ''checkout-api'' [(''service.name'', StringV ''r'')] None
        [(''service.name'', StringV ''l'')] ''service.name'' = Some (StringV ''checkout-api'')
   \<and> attributes example_identifiers '''' [(''a'', StringV ''r1'')] None [(''c'', StringV ''l3'')]
        ''service.name'' = None
   \<and> attributes example_identifiers '''' [(''service.name'', StringV ''r'')] None
        [(''c'', StringV ''l3'')] ''service.name'' = Some (StringV ''r'')"
  using attributes_service [of example_identifiers "''checkout-api''"
        "[(''service.name'', StringV ''r'')]" None "[(''service.name'', StringV ''l'')]"]
    attributes_service [of example_identifiers "''''" "[(''a'', StringV ''r1'')]" None
        "[(''c'', StringV ''l3'')]"]
    attributes_service [of example_identifiers "''''" "[(''service.name'', StringV ''r'')]" None
        "[(''c'', StringV ''l3'')]"]
  by (simp add: example_identifiers_def descriptor_entries_def)

text \<open>
  C9. For every record whose aggregation satisfies one of the two interfaces of the
  type switch (and that has a descriptor), \<^verbatim>\<open>Record\<close> returns either a metric with a
  nil error or a nil metric with an error: never both, never neither.
\<close>

theorem Record_metric_xor_error:
  "as_MinMaxSumCount (rec_Aggregation record) \<noteq> None \<or> as_Sum (rec_Aggregation record) \<noteq> None \<Longrightarrow>
   rec_Descriptor record \<noteq> None \<Longrightarrow>
   (\<exists>m. fst (Record ids service res record) = Return (Some m) None)
   \<or> (\<exists>e. fst (Record ids service res record) = Return None (Some e))"
proof -
  assume k: "as_MinMaxSumCount (rec_Aggregation record) \<noteq> None \<or>
             as_Sum (rec_Aggregation record) \<noteq> None"
    and d: "rec_Descriptor record \<noteq> None"
  from d obtain dd where dd: "rec_Descriptor record = Some dd" by auto
  show ?thesis
  proof (cases "as_MinMaxSumCount (rec_Aggregation record)")
    case None
    with k obtain s where s: "as_Sum (rec_Aggregation record) = Some s" by auto
    obtain v err where "sum_Sum s = (v, err)" by (cases "sum_Sum s")
    with None s dd show ?thesis
      by (cases err) (simp_all add: Record_def sum'_def Let_def)
  next
    case (Some a)
    obtain mn mx sm cnt err calls where
      v: "minMaxSumCountValues a = ((mn, mx, sm, cnt, err), calls)"
      by (metis prod.exhaust)
    with Some dd show ?thesis
      by (cases err) (simp_all add: Record_def minMaxSumCount_def Let_def)
  qed
qed

theorem Record_metric_xor_error_witness:
  "as_Sum (rec_Aggregation (example_record (Some requests_descriptor)
      (sum_aggregation (0, Some (AggregationError ''no data''))))) =
     Some \<lparr>sum_Sum = (0, Some (AggregationError ''no data''))\<rparr>
   \<and> rec_Descriptor (example_record (Some requests_descriptor)
      (sum_aggregation (0, Some (AggregationError ''no data'')))) = Some requests_descriptor
   \<and> fst (Record example_identifiers '''' example_resource
        (example_record (Some requests_descriptor)
           (sum_aggregation (0, Some (AggregationError ''no data'')))))
      = Return None (Some (AggregationError ''no data''))"
  using Record_metric_xor_error [of "example_record (Some requests_descriptor)
           (sum_aggregation (0, Some (AggregationError ''no data'')))"
        example_identifiers "''''" example_resource]
  by (simp add: example_record_def as_MinMaxSumCount_examples as_Sum_examples Record_def
      sum'_def)

text \<open>
  C10. \<^verbatim>\<open>attributes\<close> is a total function with no failing branch, and for a nil
  descriptor it writes no unit and no description entry: the mapping is the one written
  by the resource entries, the labels, the service entry and the provenance entries,
  and the capacity it computes counts none for the descriptor.
\<close>

theorem attributes_nil_descriptor:
  "attributes ids service res None labels k =
     last_writer k (res @ labels @ service_entries ids service @ provenance_entries ids)
   \<and> attributes ids service res None labels =
       insert_all (service_entries ids service @ provenance_entries ids)
         (insert_all labels (insert_all res Map.empty))
   \<and> attributes_n service res None labels =
       2 + length labels + length res + (if service \<noteq> '''' then 1 else 0)"
proof -
  have d: "descriptor_entries None = []"
    by (simp add: descriptor_entries_def)
  have "attributes ids service res None labels k =
     last_writer k (res @ labels @ service_entries ids service @ provenance_entries ids)"
    using attributes_last_writer [of ids service res None labels k] by (simp add: d)
  moreover have "attributes ids service res None labels =
       insert_all (service_entries ids service @ provenance_entries ids)
         (insert_all labels (insert_all res Map.empty))"
    using attributes_insert_all [of ids service res None labels]
    by (simp add: d insert_all_append)
  moreover have "attributes_n service res None labels =
       2 + length labels + length res + (if service \<noteq> '''' then 1 else 0)"
    by (simp add: attributes_n_def)
  ultimately show ?thesis by simp
qed

end
